theory Spec2Isabelle
  imports Complex_Main
begin

section \<open>Tensors\<close>

text \<open>
  The modules of \<^verbatim>\<open>agent/hierarchical/modules.py\<close> are written against the torch
  tensor library. A tensor is modelled as its size (a list of naturals) together with its
  elements in the order of their indices (row major). Every exception of the library is a
  value of type \<open>error\<close>. The elements of a floating-point tensor are modelled as reals:
  rounding, overflow and NaN are outside this model, and the theorems below are about
  sizes, about the data a result is computed from, and about failure; none of them
  depends on what an arithmetic operation returns.
\<close>

datatype error = ShapeMismatch | IncompatibleLayout | IndexOutOfRange | InvalidArgument

datatype 'a tensor = Tensor (shape: "nat list") (data: "'a list")

definition well_formed :: "'a tensor \<Rightarrow> bool" where
  "well_formed t \<longleftrightarrow> length (data t) = prod_list (shape t)"

text \<open>Sequencing of fallible steps: the first exception aborts the call.\<close>

definition bind :: "error + 'a \<Rightarrow> ('a \<Rightarrow> error + 'b) \<Rightarrow> error + 'b" where
  "bind r f = (case r of Inl e \<Rightarrow> Inl e | Inr v \<Rightarrow> f v)"

text \<open>\<open>chunk n xs i\<close> is the \<open>i\<close>-th block of \<open>n\<close> consecutive elements of \<open>xs\<close>: with
  \<open>n\<close> the product of the trailing sizes it is the sub-tensor at index \<open>i\<close> of the
  flattened leading axes.\<close>

definition chunk :: "nat \<Rightarrow> 'a list \<Rightarrow> nat \<Rightarrow> 'a list" where
  "chunk n xs i = take n (drop (i * n) xs)"

text \<open>\<^verbatim>\<open>t.size()[i]\<close>: indexing the size tuple raises when \<open>i\<close> is not an axis.\<close>

definition size_at :: "'a tensor \<Rightarrow> nat \<Rightarrow> error + nat" where
  "size_at t i = (if i < length (shape t) then Inr (shape t ! i) else Inl IndexOutOfRange)"

text \<open>\<^verbatim>\<open>torch.zeros(*sizes)\<close>.\<close>

definition zeros :: "nat list \<Rightarrow> real tensor" where
  "zeros s = Tensor s (replicate (prod_list s) 0)"

text \<open>Memory layout. The elements \<open>data t\<close> are listed in the order of the indices (row
  major); where they lie in memory is given by the strides of the tensor, one per axis,
  which are not part of \<open>t\<close> and are passed along where an operation depends on them.
  \<open>offsets s st\<close> lists, in the order of the indices, the memory offsets of the elements of
  a tensor of size \<open>s\<close> with strides \<open>st\<close>. A tensor is contiguous when its elements lie in
  memory in the order of its indices.\<close>

fun offsets :: "nat list \<Rightarrow> nat list \<Rightarrow> nat list" where
  "offsets (d # ds) (s # ss) = concat (map (\<lambda>i. map (\<lambda>j. i * s + j) (offsets ds ss)) [0..<d])"
| "offsets _ _ = [0]"

fun contiguous_strides :: "nat list \<Rightarrow> nat list" where
  "contiguous_strides [] = []"
| "contiguous_strides (d # ds) = prod_list ds # contiguous_strides ds"

definition is_contiguous :: "nat list \<Rightarrow> nat list \<Rightarrow> bool" where
  "is_contiguous s st \<longleftrightarrow> length st = length s \<and> offsets s st = [0..<prod_list s]"

text \<open>\<^verbatim>\<open>t.view(*dims)\<close>: the same memory read with a new size. One entry of \<open>dims\<close> may be
  \<open>-1\<close> and is inferred from the others; the element count must be preserved, else the
  call raises. It also raises when the new size is not compatible with the size and the
  strides of \<open>t\<close>, that is, when no strides for the new size address the elements of \<open>t\<close>
  in their order: \<open>view_strides\<close> reads the only candidates off the offsets of \<open>t\<close>. A
  view never copies. The result is returned with its strides.\<close>

fun view_strides :: "nat list \<Rightarrow> nat list \<Rightarrow> nat list" where
  "view_strides offs [] = []"
| "view_strides offs (d # ds) =
     (if prod_list ds < length offs then offs ! prod_list ds else prod_list ds) # view_strides offs ds"

definition view :: "nat list \<Rightarrow> 'a tensor \<Rightarrow> int list \<Rightarrow> error + nat list \<times> 'a tensor" where
  "view strides t dims =
     (let known = filter (\<lambda>d. d \<noteq> - 1) dims;
          p = prod_list (map nat known);
          n = prod_list (shape t)
      in if (\<exists>d \<in> set dims. d < - 1) \<or> length known + 1 < length dims then Inl InvalidArgument
         else if length known = length dims \<and> p \<noteq> n then Inl ShapeMismatch
         else if length known \<noteq> length dims \<and> (p = 0 \<or> n mod p \<noteq> 0) then Inl ShapeMismatch
         else
           let sizes = map (\<lambda>d. if d = - 1 then n div p else nat d) dims;
               offs = offsets (shape t) strides;
               strides' = view_strides offs sizes
           in if offsets sizes strides' = offs then Inr (strides', Tensor sizes (data t))
              else Inl IncompatibleLayout)"

text \<open>\<^verbatim>\<open>t.squeeze(0)\<close>: drops axis 0 when it has size one, and is the identity otherwise.\<close>

definition squeeze0 :: "'a tensor \<Rightarrow> 'a tensor" where
  "squeeze0 t = (case shape t of d # ds \<Rightarrow> if d = 1 then Tensor ds (data t) else t | [] \<Rightarrow> t)"

text \<open>\<^verbatim>\<open>t.unsqueeze(d)\<close>: inserts an axis of size one at position \<open>d\<close>.\<close>

definition unsqueeze :: "'a tensor \<Rightarrow> nat \<Rightarrow> error + 'a tensor" where
  "unsqueeze t d =
     (if d \<le> length (shape t) then Inr (Tensor (take d (shape t) @ [1] @ drop d (shape t)) (data t))
      else Inl IndexOutOfRange)"

text \<open>\<^verbatim>\<open>t.expand(*sizes)\<close>: axes of size one are repeated to the requested size, every
  other axis must already have it; missing leading axes count as size one.\<close>

fun expand_data :: "nat list \<Rightarrow> nat list \<Rightarrow> 'a list \<Rightarrow> 'a list" where
  "expand_data (d # ds) (s # ss) xs =
     (if d = s then concat (map (\<lambda>i. expand_data ds ss (chunk (prod_list ds) xs i)) [0..<d])
      else concat (replicate s (expand_data ds ss xs)))"
| "expand_data _ _ xs = xs"

definition expand :: "'a tensor \<Rightarrow> nat list \<Rightarrow> error + 'a tensor" where
  "expand t sizes =
     (if length sizes < length (shape t) then Inl ShapeMismatch
      else let padded = replicate (length sizes - length (shape t)) 1 @ shape t
           in if list_all2 (\<lambda>d s. d = s \<or> d = 1) padded sizes
              then Inr (Tensor sizes (expand_data padded sizes (data t)))
              else Inl ShapeMismatch)"

text \<open>\<^verbatim>\<open>torch.cat([a, b], -1)\<close>: concatenation along the last axis; the tensors must agree
  on every other axis.\<close>

definition cat_last :: "'a tensor \<Rightarrow> 'a tensor \<Rightarrow> error + 'a tensor" where
  "cat_last a b =
     (if shape a = [] \<or> shape b = [] \<or> butlast (shape a) \<noteq> butlast (shape b) then Inl ShapeMismatch
      else Inr (Tensor (butlast (shape a) @ [last (shape a) + last (shape b)])
                  (concat (map (\<lambda>r. chunk (last (shape a)) (data a) r @ chunk (last (shape b)) (data b) r)
                             [0..<prod_list (butlast (shape a))]))))"

section \<open>Library layers\<close>

text \<open>\<^verbatim>\<open>F.relu\<close>, elementwise.\<close>

definition relu :: "real tensor \<Rightarrow> real tensor" where
  "relu t = Tensor (shape t) (map (max 0) (data t))"

text \<open>\<^verbatim>\<open>nn.Linear(in_features, out_features)\<close>: the weight has size
  \<open>[out_features, in_features]\<close>, the bias \<open>[out_features]\<close>; the layer acts on the last
  axis of its input.\<close>

record Linear =
  in_features :: nat
  out_features :: nat
  lin_weight :: "real tensor"
  lin_bias :: "real tensor"

definition Linear_init :: "nat \<Rightarrow> nat \<Rightarrow> real tensor \<Rightarrow> real tensor \<Rightarrow> Linear" where
  "Linear_init in_features' out_features' w b =
     \<lparr>in_features = in_features', out_features = out_features', lin_weight = w, lin_bias = b\<rparr>"

definition Linear_wf :: "Linear \<Rightarrow> bool" where
  "Linear_wf m \<longleftrightarrow>
     shape (lin_weight m) = [out_features m, in_features m] \<and> well_formed (lin_weight m) \<and>
     shape (lin_bias m) = [out_features m] \<and> well_formed (lin_bias m)"

definition linear_row :: "Linear \<Rightarrow> real list \<Rightarrow> real list" where
  "linear_row m x =
     map (\<lambda>j. (\<Sum>i\<leftarrow>[0..<in_features m]. data (lin_weight m) ! (j * in_features m + i) * x ! i)
               + data (lin_bias m) ! j)
         [0..<out_features m]"

definition Linear_forward :: "Linear \<Rightarrow> real tensor \<Rightarrow> error + real tensor" where
  "Linear_forward m x =
     (if shape x = [] \<or> last (shape x) \<noteq> in_features m then Inl ShapeMismatch
      else Inr (Tensor (butlast (shape x) @ [out_features m])
                  (concat (map (\<lambda>r. linear_row m (chunk (in_features m) (data x) r))
                             [0..<prod_list (butlast (shape x))]))))"

text \<open>\<^verbatim>\<open>nn.Conv2d(in_channels, out_channels, kernel_size, stride)\<close>, without padding: the
  weight has size \<open>[out_channels, in_channels, kernel_size, kernel_size]\<close>, the bias
  \<open>[out_channels]\<close>. The input must have size \<open>[N, in_channels, H, W]\<close> with \<open>H\<close> and \<open>W\<close>
  at least the kernel size; every one of the \<open>N\<close> samples is convolved on its own.\<close>

record Conv2d =
  in_channels :: nat
  out_channels :: nat
  kernel_size :: nat
  stride :: nat
  conv_weight :: "real tensor"
  conv_bias :: "real tensor"

definition Conv2d_init :: "nat \<Rightarrow> nat \<Rightarrow> nat \<Rightarrow> nat \<Rightarrow> real tensor \<Rightarrow> real tensor \<Rightarrow> Conv2d" where
  "Conv2d_init in_channels' out_channels' kernel_size' stride' w b =
     \<lparr>in_channels = in_channels', out_channels = out_channels', kernel_size = kernel_size',
      stride = stride', conv_weight = w, conv_bias = b\<rparr>"

definition Conv2d_wf :: "Conv2d \<Rightarrow> bool" where
  "Conv2d_wf m \<longleftrightarrow>
     shape (conv_weight m) = [out_channels m, in_channels m, kernel_size m, kernel_size m] \<and>
     well_formed (conv_weight m) \<and>
     shape (conv_bias m) = [out_channels m] \<and> well_formed (conv_bias m)"

definition conv_out :: "nat \<Rightarrow> nat \<Rightarrow> nat \<Rightarrow> nat" where
  "conv_out n k s = (n - k) div s + 1"

definition conv2d_at :: "Conv2d \<Rightarrow> nat \<Rightarrow> nat \<Rightarrow> real list \<Rightarrow> nat \<Rightarrow> nat \<Rightarrow> nat \<Rightarrow> real" where
  "conv2d_at m H W x co i j =
     data (conv_bias m) ! co +
     (\<Sum>ci\<leftarrow>[0..<in_channels m]. \<Sum>kh\<leftarrow>[0..<kernel_size m]. \<Sum>kw\<leftarrow>[0..<kernel_size m].
        data (conv_weight m) ! (((co * in_channels m + ci) * kernel_size m + kh) * kernel_size m + kw)
        * x ! ((ci * H + (i * stride m + kh)) * W + (j * stride m + kw)))"

definition conv2d_frame :: "Conv2d \<Rightarrow> nat \<Rightarrow> nat \<Rightarrow> real list \<Rightarrow> real list" where
  "conv2d_frame m H W x =
     concat (map (\<lambda>co.
       concat (map (\<lambda>i.
         map (\<lambda>j. conv2d_at m H W x co i j) [0..<conv_out W (kernel_size m) (stride m)])
         [0..<conv_out H (kernel_size m) (stride m)]))
       [0..<out_channels m])"

definition Conv2d_forward :: "Conv2d \<Rightarrow> real tensor \<Rightarrow> error + real tensor" where
  "Conv2d_forward m x =
     (case shape x of
        [N, C, H, W] \<Rightarrow>
          if kernel_size m = 0 \<or> stride m = 0 then Inl InvalidArgument
          else if C \<noteq> in_channels m \<or> H < kernel_size m \<or> W < kernel_size m then Inl ShapeMismatch
          else Inr (Tensor [N, out_channels m, conv_out H (kernel_size m) (stride m),
                            conv_out W (kernel_size m) (stride m)]
                      (concat (map (\<lambda>n. conv2d_frame m H W (chunk (C * H * W) (data x) n)) [0..<N])))
      | _ \<Rightarrow> Inl ShapeMismatch)"

text \<open>\<^verbatim>\<open>nn.LSTM(input_size, hidden_size, batch_first=True)\<close>: one layer, one direction.
  The weights have sizes \<open>[4 * hidden_size, input_size]\<close> and
  \<open>[4 * hidden_size, hidden_size]\<close>, the two biases \<open>[4 * hidden_size]\<close>; the four gates
  are stored in the order input, forget, cell, output.\<close>

record LSTM =
  input_size :: nat
  lstm_hidden_size :: nat
  weight_ih_l0 :: "real tensor"
  weight_hh_l0 :: "real tensor"
  bias_ih_l0 :: "real tensor"
  bias_hh_l0 :: "real tensor"


definition sigmoid :: "real \<Rightarrow> real" where
  "sigmoid x = 1 / (1 + exp (- x))"

text \<open>One step of the cell on the input vector \<open>x\<close> from the state \<open>(h, c)\<close>.\<close>

definition lstm_gates :: "LSTM \<Rightarrow> real list \<Rightarrow> real list \<Rightarrow> real list" where
  "lstm_gates m x h =
     map (\<lambda>j. (\<Sum>i\<leftarrow>[0..<input_size m]. data (weight_ih_l0 m) ! (j * input_size m + i) * x ! i)
               + data (bias_ih_l0 m) ! j
               + ((\<Sum>i\<leftarrow>[0..<lstm_hidden_size m].
                     data (weight_hh_l0 m) ! (j * lstm_hidden_size m + i) * h ! i)
                  + data (bias_hh_l0 m) ! j))
         [0..<4 * lstm_hidden_size m]"

definition lstm_cell :: "LSTM \<Rightarrow> real list \<Rightarrow> real list \<times> real list \<Rightarrow> real list \<times> real list" where
  "lstm_cell m x s =
     (let H = lstm_hidden_size m;
          gates = lstm_gates m x (fst s);
          ingate = map sigmoid (chunk H gates 0);
          forgetgate = map sigmoid (chunk H gates 1);
          cellgate = map tanh (chunk H gates 2);
          outgate = map sigmoid (chunk H gates 3);
          cy = map (\<lambda>k. forgetgate ! k * snd s ! k + ingate ! k * cellgate ! k) [0..<H];
          hy = map (\<lambda>k. outgate ! k * tanh (cy ! k)) [0..<H]
      in (hy, cy))"

text \<open>The states after each step of a sequence, in order.\<close>

fun lstm_states :: "LSTM \<Rightarrow> real list \<times> real list \<Rightarrow> real list list \<Rightarrow> (real list \<times> real list) list" where
  "lstm_states m s [] = []"
| "lstm_states m s (x # xs) = (let s' = lstm_cell m x s in s' # lstm_states m s' xs)"

text \<open>The input vectors of batch element \<open>b\<close>, in time order, of a batch-first input of
  size \<open>[B, T, I]\<close>.\<close>

definition sequence_of :: "nat \<Rightarrow> nat \<Rightarrow> real list \<Rightarrow> nat \<Rightarrow> real list list" where
  "sequence_of I T xs b = map (\<lambda>t. chunk I xs (b * T + t)) [0..<T]"

text \<open>The layer as documented. A three-dimensional input of size \<open>[B, T, I]\<close> is a batch
  (batch first) and requires both initial state tensors to be three-dimensional, of size
  \<open>[1, B, H]\<close> (layers, batch, hidden); a two-dimensional input of size \<open>[T, I]\<close> is a
  single sequence and requires both to be two-dimensional, of size \<open>[1, H]\<close>. The checks
  are made in this order: the rank of the input, the rank of the state, the width of the
  input, the size of the state; an empty sequence is rejected. The layer returns the
  hidden states of all steps and the pair of the final hidden and cell states, which have
  the size of the initial state.\<close>

definition LSTM_forward ::
  "LSTM \<Rightarrow> real tensor \<Rightarrow> real tensor \<times> real tensor
     \<Rightarrow> error + real tensor \<times> (real tensor \<times> real tensor)" where
  "LSTM_forward m input hx =
     (let H = lstm_hidden_size m in
      case shape input of
        [B, T, I] \<Rightarrow>
          if length (shape (fst hx)) \<noteq> 3 \<or> length (shape (snd hx)) \<noteq> 3 then Inl ShapeMismatch
          else if I \<noteq> input_size m then Inl ShapeMismatch
          else if shape (fst hx) \<noteq> [1, B, H] \<or> shape (snd hx) \<noteq> [1, B, H] then Inl ShapeMismatch
          else if T = 0 then Inl InvalidArgument
          else
            let runs = map (\<lambda>b. lstm_states m (chunk H (data (fst hx)) b, chunk H (data (snd hx)) b)
                                   (sequence_of I T (data input) b))
                         [0..<B]
            in Inr (Tensor [B, T, H] (concat (map (\<lambda>r. concat (map fst r)) runs)),
                    (Tensor [1, B, H] (concat (map (\<lambda>r. fst (last r)) runs)),
                     Tensor [1, B, H] (concat (map (\<lambda>r. snd (last r)) runs))))
      | [T, I] \<Rightarrow>
          if length (shape (fst hx)) \<noteq> 2 \<or> length (shape (snd hx)) \<noteq> 2 then Inl ShapeMismatch
          else if I \<noteq> input_size m then Inl ShapeMismatch
          else if shape (fst hx) \<noteq> [1, H] \<or> shape (snd hx) \<noteq> [1, H] then Inl ShapeMismatch
          else if T = 0 then Inl InvalidArgument
          else
            let run = lstm_states m (data (fst hx), data (snd hx)) (sequence_of I T (data input) 0)
            in Inr (Tensor [T, H] (concat (map fst run)),
                    (Tensor [1, H] (fst (last run)), Tensor [1, H] (snd (last run))))
      | _ \<Rightarrow> Inl InvalidArgument)"

text \<open>\<^verbatim>\<open>nn.EmbeddingBag(num_embeddings, embedding_dim, mode="sum")\<close> called with
  \<^verbatim>\<open>offsets=None\<close>. A two-dimensional input of size \<open>[B, L]\<close> is read as \<open>B\<close> bags of
  \<open>L\<close> indices each; the library builds the bag offsets as
  \<^verbatim>\<open>arange(0, B * L, L)\<close>, which raises for the step \<open>L = 0\<close>. A one-dimensional input
  requires offsets and raises without them, any other rank raises as well, and so does an
  index outside the table. Each bag yields the sum of the rows of the weight table at its
  indices.\<close>

record EmbeddingBag =
  num_embeddings :: nat
  embedding_dim :: nat
  emb_weight :: "real tensor"

definition embedding_row :: "EmbeddingBag \<Rightarrow> int \<Rightarrow> real list" where
  "embedding_row m i = chunk (embedding_dim m) (data (emb_weight m)) (nat i)"

definition bag_sum :: "nat \<Rightarrow> real list list \<Rightarrow> real list" where
  "bag_sum D vs = map (\<lambda>k. \<Sum>v\<leftarrow>vs. v ! k) [0..<D]"

definition embedding_bag :: "EmbeddingBag \<Rightarrow> int tensor \<Rightarrow> error + real tensor" where
  "embedding_bag m input =
     (case shape input of
        [B, L] \<Rightarrow>
          if L = 0 then Inl InvalidArgument
          else if \<exists>i \<in> set (data input). i < 0 \<or> int (num_embeddings m) \<le> i
          then Inl IndexOutOfRange
          else Inr (Tensor [B, embedding_dim m]
                      (concat (map (\<lambda>b. bag_sum (embedding_dim m)
                                           (map (embedding_row m) (chunk L (data input) b)))
                                 [0..<B])))
      | _ \<Rightarrow> Inl InvalidArgument)"

section \<open>InstructionEncoder\<close>

text \<open>The constructor stores the flag and the vocabulary size and creates the embedding
  table, of width 128; the table's (randomly initialised, later trained) weight is the
  argument \<open>w\<close>.\<close>

record InstructionEncoder =
  bow :: bool
  vocabulary_size :: nat
  embeddings :: EmbeddingBag

definition InstructionEncoder_init :: "nat \<Rightarrow> bool \<Rightarrow> real tensor \<Rightarrow> InstructionEncoder" where
  "InstructionEncoder_init vocabulary_size' bow' w =
     \<lparr>bow = bow', vocabulary_size = vocabulary_size',
      embeddings = \<lparr>num_embeddings = vocabulary_size', embedding_dim = 128, emb_weight = w\<rparr>\<rparr>"

text \<open>\<open>forward\<close> returns the warnings it issued through \<^verbatim>\<open>warnings.warn\<close> together
  with its result.\<close>

definition InstructionEncoder_forward ::
  "InstructionEncoder \<Rightarrow> int tensor \<Rightarrow> string list \<times> (error + real tensor)" where
  "InstructionEncoder_forward self instruction =
     ((if \<not> bow self
       then [''The RNN-encoding is not yet implemented. Switch to the Bag of Words.'']
       else []),
      embedding_bag (embeddings self) instruction)"







section \<open>Fusion\<close>

text \<open>\<open>Fusion\<close> has no constructor and no parameters: \<open>forward\<close> is a function of its two
  arguments alone.\<close>

definition Fusion_forward :: "real tensor \<Rightarrow> real tensor \<Rightarrow> error + real tensor" where
  "Fusion_forward visual_encoding instruction_encoding =
     bind (size_at visual_encoding 0) (\<lambda>batch_size.
     bind (size_at visual_encoding 1) (\<lambda>num_timesteps.
     bind (unsqueeze instruction_encoding 1) (\<lambda>unsqueezed.
     bind (expand unsqueezed [batch_size, num_timesteps, 128]) (\<lambda>instruction_expanded.
     cat_last visual_encoding instruction_expanded))))"

section \<open>TimeEncoder\<close>

record TimeEncoder =
  hidden_size :: nat
  lstm :: LSTM


text \<open>\<open>forward\<close> builds a zero initial state of size \<open>[batch_size, hidden_size]\<close>, calls
  the layer with it, drops the layer's output sequence and returns the final hidden state
  without its leading axis.\<close>

definition TimeEncoder_forward :: "TimeEncoder \<Rightarrow> real tensor \<Rightarrow> error + real tensor" where
  "TimeEncoder_forward self fused =
     bind (size_at fused 0) (\<lambda>batch_size.
     let hidden = (zeros [batch_size, hidden_size self], zeros [batch_size, hidden_size self]) in
     bind (LSTM_forward (lstm self) fused hidden) (\<lambda>(output, hidden).
     Inr (squeeze0 (fst hidden))))"

section \<open>VisualEncoder\<close>

text \<open>The constructor creates three convolutions and one linear layer with fixed
  geometry; their weights and biases are the parameters.\<close>

record VisualEncoder =
  conv1 :: Conv2d
  conv2 :: Conv2d
  conv3 :: Conv2d
  visual_linear :: Linear

definition VisualEncoder_init ::
  "real tensor \<Rightarrow> real tensor \<Rightarrow> real tensor \<Rightarrow> real tensor \<Rightarrow>
   real tensor \<Rightarrow> real tensor \<Rightarrow> real tensor \<Rightarrow> real tensor \<Rightarrow> VisualEncoder" where
  "VisualEncoder_init w1 b1 w2 b2 w3 b3 wl bl =
     \<lparr>conv1 = Conv2d_init 3 32 8 4 w1 b1,
      conv2 = Conv2d_init 32 64 4 2 w2 b2,
      conv3 = Conv2d_init 64 64 3 1 w3 b3,
      visual_linear = Linear_init (64 * 7 * 7) 256 wl bl\<rparr>"

definition VisualEncoder_wf :: "VisualEncoder \<Rightarrow> bool" where
  "VisualEncoder_wf self \<longleftrightarrow>
     Conv2d_wf (conv1 self) \<and> Conv2d_wf (conv2 self) \<and> Conv2d_wf (conv3 self) \<and>
     Linear_wf (visual_linear self)"

text \<open>\<open>forward\<close> takes the caller's tensor \<open>img\<close> and, as \<open>img_stride\<close>, its strides. The
  layers return contiguous tensors when the frames they are given are contiguous. When
  the frames are not, the library derives the memory format of each layer's result from
  that of its input, and the later views depend on it; the model does not follow memory
  formats beyond contiguity and gives no outcome (\<open>None\<close>) for such an input.\<close>

definition VisualEncoder_forward ::
  "VisualEncoder \<Rightarrow> nat list \<Rightarrow> real tensor \<Rightarrow> (error + real tensor) option" where
  "VisualEncoder_forward self img_stride img =
     (case size_at img 0 of Inl e \<Rightarrow> Some (Inl e) | Inr batch_size \<Rightarrow>
      case size_at img 1 of Inl e \<Rightarrow> Some (Inl e) | Inr num_timesteps \<Rightarrow>
      case view img_stride img [int (batch_size * num_timesteps), 3, 84, 84] of
        Inl e \<Rightarrow> Some (Inl e)
      | Inr (frames_stride, frames) \<Rightarrow>
          if \<not> is_contiguous (shape frames) frames_stride then None
          else Some (
            bind (Conv2d_forward (conv1 self) frames) (\<lambda>c1.
            bind (Conv2d_forward (conv2 self) (relu c1)) (\<lambda>c2.
            bind (Conv2d_forward (conv3 self) (relu c2)) (\<lambda>c3.
            bind (view (contiguous_strides (shape c3)) (relu c3)
                    [int (batch_size * num_timesteps), - 1]) (\<lambda>(flat_stride, flat).
            bind (Linear_forward (visual_linear self) flat) (\<lambda>l.
            bind (view (contiguous_strides (shape l)) (relu l)
                    [int batch_size, int num_timesteps, - 1]) (\<lambda>(encoding_stride, encoding).
            Inr encoding))))))))"

text \<open>What the layers compute on one frame, given as its \<open>3 * 84 * 84\<close> elements: used
  to state that the frames are encoded one by one.\<close>

definition frame_encoding :: "VisualEncoder \<Rightarrow> real list \<Rightarrow> real list" where
  "frame_encoding self x =
     map (max 0) (linear_row (visual_linear self)
       (map (max 0) (conv2d_frame (conv3 self) 9 9
         (map (max 0) (conv2d_frame (conv2 self) 20 20
           (map (max 0) (conv2d_frame (conv1 self) 84 84 x)))))))"

section \<open>Lemmas on blocks\<close>

lemma length_concat_blocks:
  "(\<And>i. i < k \<Longrightarrow> length (g i) = m) \<Longrightarrow> length (concat (map g [0..<k])) = k * m"
  by (induction k) simp_all

lemma chunk_concat_blocks:
  assumes len: "\<And>i. i < k \<Longrightarrow> length (g i) = m" and i: "i < k"
  shows "chunk m (concat (map g [0..<k])) i = g i"
  using assms
proof (induction k)
  case 0
  then show ?case by simp
next
  case (Suc k)
  have lenA: "length (concat (map g [0..<k])) = k * m"
    using Suc.prems(1) by (intro length_concat_blocks) simp
  show ?case
  proof (cases "i < k")
    case True
    have "Suc i \<le> k" using True by simp
    then have "Suc i * m \<le> k * m" by (rule mult_le_mono1)
    then have le: "i * m + m \<le> k * m" by simp
    have "chunk m (concat (map g [0..<Suc k])) i
          = take m (drop (i * m) (concat (map g [0..<k])) @ g k)"
      using le lenA by (simp add: chunk_def)
    also have "\<dots> = take m (drop (i * m) (concat (map g [0..<k])))"
      using le lenA by simp
    also have "\<dots> = g i"
      using Suc.IH [OF _ True] Suc.prems(1) by (simp add: chunk_def)
    finally show ?thesis .
  next
    case False
    then have "i = k" using Suc.prems(2) by simp
    then show ?thesis using lenA Suc.prems(1) [of k] by (simp add: chunk_def)
  qed
qed

lemma length_chunk: "Suc i * n \<le> length xs \<Longrightarrow> length (chunk n xs i) = n"
  by (simp add: chunk_def)

lemma chunk_map: "chunk n (map f xs) i = map f (chunk n xs i)"
  by (simp add: chunk_def take_map drop_map)

lemma concat_chunks: "length xs = k * n \<Longrightarrow> concat (map (chunk n xs) [0..<k]) = xs"
proof (induction k arbitrary: xs rule: nat.induct)
  case zero
  then show ?case by simp
next
  case (Suc k)
  have "concat (map (chunk n xs) [0..<k]) = concat (map (chunk n (take (k * n) xs)) [0..<k])"
  proof -
    have "\<And>i. i < k \<Longrightarrow> chunk n xs i = chunk n (take (k * n) xs) i"
    proof -
      fix i assume "i < k"
      then have "Suc i \<le> k" by simp
      then have "Suc i * n \<le> k * n" by (rule mult_le_mono1)
      then have "i * n + n \<le> k * n" by simp
      then show "chunk n xs i = chunk n (take (k * n) xs) i"
        by (simp add: chunk_def drop_take min_def)
    qed
    then show ?thesis by (intro arg_cong [where f = concat]) simp
  qed
  also have "\<dots> = take (k * n) xs"
    using Suc.prems by (intro Suc.IH) simp
  finally have "concat (map (chunk n xs) [0..<Suc k]) = take (k * n) xs @ chunk n xs k"
    by simp
  also have "\<dots> = xs" using Suc.prems by (simp add: chunk_def)
  finally show ?case .
qed

section \<open>InstructionEncoder: warnings and sizes\<close>

lemma length_bag_sum: "length (bag_sum D vs) = D"
  by (simp add: bag_sum_def)

lemma embedding_bag_ok:
  assumes "shape input = [B, L]" and "0 < L"
    and "\<forall>i \<in> set (data input). 0 \<le> i \<and> i < int (num_embeddings m)"
  shows "embedding_bag m input =
     Inr (Tensor [B, embedding_dim m]
            (concat (map (\<lambda>b. bag_sum (embedding_dim m)
                                 (map (embedding_row m) (chunk L (data input) b)))
                       [0..<B])))"
  using assms by (auto simp: embedding_bag_def)






text \<open>C10: the result of \<open>forward\<close> does not depend on the \<open>bow\<close> flag. Two encoders with
  the same embedding parameters return the same result on the same instruction, whatever
  their flags; the flag decides only whether the warning is issued.\<close>

theorem InstructionEncoder_bow_flag_irrelevant:
  "embeddings e1 = embeddings e2 \<Longrightarrow>
     snd (InstructionEncoder_forward e1 instruction) = snd (InstructionEncoder_forward e2 instruction)
     \<and> (fst (InstructionEncoder_forward e1 instruction) \<noteq> [] \<longleftrightarrow> \<not> bow e1)
     \<and> (fst (InstructionEncoder_forward e2 instruction) \<noteq> [] \<longleftrightarrow> \<not> bow e2)"
  by (simp add: InstructionEncoder_forward_def)

theorem InstructionEncoder_bow_flag_irrelevant_witness:
  "embeddings (InstructionEncoder_init 2 True (Tensor [2, 128] (replicate 256 1)))
     = embeddings (InstructionEncoder_init 2 False (Tensor [2, 128] (replicate 256 1)))
   \<and> snd (InstructionEncoder_forward (InstructionEncoder_init 2 True (Tensor [2, 128] (replicate 256 1)))
            (Tensor [1, 2] [0, 1]))
     = snd (InstructionEncoder_forward (InstructionEncoder_init 2 False (Tensor [2, 128] (replicate 256 1)))
            (Tensor [1, 2] [0, 1]))"
  using InstructionEncoder_bow_flag_irrelevant
    [of "InstructionEncoder_init 2 True (Tensor [2, 128] (replicate 256 1))"
        "InstructionEncoder_init 2 False (Tensor [2, 128] (replicate 256 1))"
        "Tensor [1, 2] [0, 1]"]
  by (simp add: InstructionEncoder_init_def)

text \<open>C7 as stated fails: for the empty instruction (\<open>L = 0\<close>) the embedding lookup
  raises instead of returning a zero vector.\<close>

theorem InstructionEncoder_empty_instruction_counterexample:
  "snd (InstructionEncoder_forward
          (InstructionEncoder_init 10 True (Tensor [10, 128] (replicate 1280 0)))
          (Tensor [1, 0] []))
   = Inl InvalidArgument"
  by (simp add: InstructionEncoder_forward_def embedding_bag_def)

text \<open>C7, amended: for every batch size \<open>B\<close> and every instruction length \<open>L \<ge> 1\<close>, with all
  tokens inside the vocabulary, \<open>forward\<close> returns a well-formed tensor of size \<open>[B, 128]\<close>
  without failing, in either mode; for the empty instruction, \<open>L = 0\<close>, it fails.\<close>

theorem InstructionEncoder_forward_shape:
  assumes "shape instruction = [B, L]" and "well_formed instruction"
    and "\<forall>i \<in> set (data instruction). 0 \<le> i \<and> i < int V"
  shows "(0 < L \<longrightarrow>
            (\<exists>out. snd (InstructionEncoder_forward (InstructionEncoder_init V flag w) instruction)
                      = Inr out
               \<and> shape out = [B, 128] \<and> well_formed out))
         \<and> (L = 0 \<longrightarrow>
              snd (InstructionEncoder_forward (InstructionEncoder_init V flag w) instruction)
                = Inl InvalidArgument)"
proof -
  let ?E = "embeddings (InstructionEncoder_init V flag w)"
  have E: "num_embeddings ?E = V" "embedding_dim ?E = 128"
    by (simp_all add: InstructionEncoder_init_def)
  have len: "length (concat (map (\<lambda>b. bag_sum 128 (map (embedding_row ?E) (chunk L (data instruction) b)))
                               [0..<B])) = B * 128"
    by (intro length_concat_blocks) (simp add: length_bag_sum)
  show ?thesis
    using assms E len embedding_bag_ok [of instruction B L ?E]
    by (auto simp: InstructionEncoder_forward_def well_formed_def embedding_bag_def)
qed

theorem InstructionEncoder_forward_shape_witness:
  "shape (Tensor [2, 3] [0, 1, 1, 4, 3, 0 :: int]) = [2, 3]
   \<and> well_formed (Tensor [2, 3] [0, 1, 1, 4, 3, 0 :: int])
   \<and> list_all (\<lambda>i. 0 \<le> i \<and> i < int 5) (data (Tensor [2, 3] [0, 1, 1, 4, 3, 0 :: int]))
   \<and> (\<exists>out. snd (InstructionEncoder_forward
                   (InstructionEncoder_init 5 True (Tensor [5, 128] (replicate 640 0)))
                   (Tensor [2, 3] [0, 1, 1, 4, 3, 0])) = Inr out
          \<and> shape out = [2, 128] \<and> well_formed out)"
  using InstructionEncoder_forward_shape
    [of "Tensor [2, 3] [0, 1, 1, 4, 3, 0]" 2 3 5 True "Tensor [5, 128] (replicate 640 0)"]
  by (simp add: well_formed_def)

section \<open>Fusion: concatenation with the broadcast instruction\<close>

lemma chunk_chunk: "t < T \<Longrightarrow> chunk n (chunk (T * n) xs b) t = chunk n xs (b * T + t)"
proof -
  assume "t < T"
  then have "Suc t \<le> T" by simp
  then have "Suc t * n \<le> T * n" by (rule mult_le_mono1)
  then have "n \<le> T * n - t * n" by simp
  then show ?thesis
    by (simp add: chunk_def drop_take min_def algebra_simps)
qed

lemma chunk_replicate:
  "length r = n \<Longrightarrow> t < T \<Longrightarrow> chunk n (concat (replicate T r)) t = r"
proof -
  assume r: "length r = n" and t: "t < T"
  have "replicate T r = map (\<lambda>_. r) [0..<T]"
    by (simp add: map_replicate_const)
  then show ?thesis
    using chunk_concat_blocks [of T "\<lambda>_. r" n t] r t by simp
qed

lemma expand_data_same: "length xs = prod_list ds \<Longrightarrow> expand_data ds ds xs = xs"
proof (induction ds arbitrary: xs)
  case Nil
  then show ?case by simp
next
  case (Cons d ds)
  have "expand_data ds ds (chunk (prod_list ds) xs i) = chunk (prod_list ds) xs i" if "i < d" for i
  proof -
    have "Suc i \<le> d" using that by simp
    then have "Suc i * prod_list ds \<le> d * prod_list ds" by (rule mult_le_mono1)
    then show ?thesis using Cons.prems by (intro Cons.IH length_chunk) simp
  qed
  then have "concat (map (\<lambda>i. expand_data ds ds (chunk (prod_list ds) xs i)) [0..<d])
             = concat (map (chunk (prod_list ds) xs) [0..<d])"
    by (intro arg_cong [where f = concat] map_cong refl) simp
  also have "\<dots> = xs" using Cons.prems by (intro concat_chunks) simp
  finally show ?case by simp
qed

lemma expand_data_time:
  assumes "length xs = B * n"
  shows "expand_data [B, 1, n] [B, T, n] xs
         = concat (map (\<lambda>b. concat (replicate T (chunk n xs b))) [0..<B])"
proof -
  have inner: "expand_data [1, n] [T, n] ys = concat (replicate T ys)" if "length ys = n" for ys
  proof (cases "T = 1")
    case True
    have "chunk n ys 0 = ys" using that by (simp add: chunk_def)
    then show ?thesis using True that expand_data_same [of ys "[n]"] by simp
  next
    case False
    then show ?thesis using that expand_data_same [of ys "[n]"] by simp
  qed
  have "expand_data [1, n] [T, n] (chunk n xs b) = concat (replicate T (chunk n xs b))"
    if "b < B" for b
  proof -
    have "Suc b \<le> B" using that by simp
    then have "Suc b * n \<le> B * n" by (rule mult_le_mono1)
    then show ?thesis using assms by (intro inner length_chunk) simp
  qed
  then have "concat (map (\<lambda>b. expand_data [1, n] [T, n] (chunk n xs b)) [0..<B])
             = concat (map (\<lambda>b. concat (replicate T (chunk n xs b))) [0..<B])"
    by (intro arg_cong [where f = concat] map_cong refl) simp
  then show ?thesis by simp
qed

lemma Fusion_forward_eq:
  assumes "shape v = [B, T, 256]" and "shape ins = [B, 128]" and "well_formed ins"
  shows "Fusion_forward v ins =
           Inr (Tensor [B, T, 384]
                 (concat (map (\<lambda>r. chunk 256 (data v) r
                                  @ chunk 128 (concat (map (\<lambda>b. concat (replicate T (chunk 128 (data ins) b)))
                                                         [0..<B])) r)
                            [0..<B * T])))"
proof -
  have len: "length (data ins) = B * 128"
    using assms by (simp add: well_formed_def)
  show ?thesis
    using assms expand_data_time [OF len, of T]
    by (simp add: Fusion_forward_def bind_def size_at_def unsqueeze_def expand_def cat_last_def)
qed

text \<open>C4: for visual features of size \<open>[B, T, 256]\<close> and instruction features of size
  \<open>[B, 128]\<close>, \<open>Fusion.forward\<close> returns a tensor of size \<open>[B, T, 384]\<close>; at every
  batch element \<open>b\<close> and timestep \<open>t\<close> its first 256 features are exactly the visual
  features at \<open>(b, t)\<close> and its last 128 features are exactly the instruction features of
  \<open>b\<close>. The operation takes no parameters.\<close>

theorem Fusion_forward_concat:
  assumes sv: "shape v = [B, T, 256]" and wv: "well_formed v"
    and si: "shape ins = [B, 128]" and wi: "well_formed ins"
  shows "\<exists>out. Fusion_forward v ins = Inr out \<and> shape out = [B, T, 384] \<and> well_formed out
           \<and> (\<forall>b<B. \<forall>t<T.
                 take 256 (chunk 384 (data out) (b * T + t)) = chunk 256 (data v) (b * T + t)
               \<and> drop 256 (chunk 384 (data out) (b * T + t)) = chunk 128 (data ins) b)"
proof -
  let ?E = "concat (map (\<lambda>b. concat (replicate T (chunk 128 (data ins) b))) [0..<B])"
  let ?row = "\<lambda>r. chunk 256 (data v) r @ chunk 128 ?E r"
  let ?out = "Tensor [B, T, 384] (concat (map ?row [0..<B * T]))"
  have lv: "length (data v) = B * T * 256" and li: "length (data ins) = B * 128"
    using sv wv si wi by (simp_all add: well_formed_def)
  have lrow: "length (chunk 128 (data ins) b) = 128" if "b < B" for b
  proof -
    have "Suc b \<le> B" using that by simp
    then have "Suc b * 128 \<le> B * 128" by (rule mult_le_mono1)
    then show ?thesis using li by (intro length_chunk) simp
  qed
  have lE: "length ?E = B * (T * 128)"
    by (intro length_concat_blocks) (simp add: lrow length_concat sum_list_replicate)
  have lv_r: "length (chunk 256 (data v) r) = 256" if "r < B * T" for r
  proof -
    have "Suc r \<le> B * T" using that by simp
    then have "Suc r * 256 \<le> B * T * 256" by (rule mult_le_mono1)
    then show ?thesis using lv by (intro length_chunk) simp
  qed
  have lE_r: "length (chunk 128 ?E r) = 128" if "r < B * T" for r
  proof -
    have "Suc r \<le> B * T" using that by simp
    then have "Suc r * 128 \<le> B * T * 128" by (rule mult_le_mono1)
    then show ?thesis using lE by (intro length_chunk) (simp add: mult.assoc)
  qed
  have rows: "chunk 384 (concat (map ?row [0..<B * T])) r = ?row r" if "r < B * T" for r
    using that by (intro chunk_concat_blocks) (simp_all add: lv_r lE_r)
  have lout: "length (concat (map ?row [0..<B * T])) = B * T * 384"
    by (intro length_concat_blocks) (simp add: lv_r lE_r)
  have E_bt: "chunk 128 ?E (b * T + t) = chunk 128 (data ins) b" if "b < B" "t < T" for b t
  proof -
    have "chunk 128 ?E (b * T + t) = chunk 128 (chunk (T * 128) ?E b) t"
      using that(2) by (simp add: chunk_chunk)
    also have "chunk (T * 128) ?E b = concat (replicate T (chunk 128 (data ins) b))"
      using that(1)
      by (intro chunk_concat_blocks) (simp_all add: lrow length_concat sum_list_replicate)
    also have "chunk 128 (concat (replicate T (chunk 128 (data ins) b))) t = chunk 128 (data ins) b"
      using that by (intro chunk_replicate lrow)
    finally show ?thesis .
  qed
  have idx: "b * T + t < B * T" if "b < B" "t < T" for b t
  proof -
    have "b * T + t < b * T + T" using that(2) by simp
    also have "\<dots> = Suc b * T" by simp
    also have "\<dots> \<le> B * T" using that(1) by (intro mult_le_mono1) simp
    finally show ?thesis .
  qed
  have "Fusion_forward v ins = Inr ?out"
    using Fusion_forward_eq [OF sv si wi] .
  moreover have "well_formed ?out"
    using lout by (simp add: well_formed_def)
  moreover have "\<forall>b<B. \<forall>t<T.
                 take 256 (chunk 384 (data ?out) (b * T + t)) = chunk 256 (data v) (b * T + t)
               \<and> drop 256 (chunk 384 (data ?out) (b * T + t)) = chunk 128 (data ins) b"
    using rows idx lv_r E_bt by simp
  ultimately show ?thesis by (intro exI [of _ ?out]) simp
qed

theorem Fusion_forward_concat_witness:
  "shape (Tensor [1, 2, 256] (replicate 512 (1 :: real))) = [1, 2, 256]
   \<and> well_formed (Tensor [1, 2, 256] (replicate 512 (1 :: real)))
   \<and> shape (Tensor [1, 128] (replicate 128 (2 :: real))) = [1, 128]
   \<and> well_formed (Tensor [1, 128] (replicate 128 (2 :: real)))
   \<and> (\<exists>out. Fusion_forward (Tensor [1, 2, 256] (replicate 512 1)) (Tensor [1, 128] (replicate 128 2))
               = Inr out
          \<and> shape out = [1, 2, 384] \<and> well_formed out
          \<and> take 256 (chunk 384 (data out) (0 * 2 + 1)) = chunk 256 (replicate 512 1) (0 * 2 + 1)
          \<and> drop 256 (chunk 384 (data out) (0 * 2 + 1)) = chunk 128 (replicate 128 2) 0)"
proof -
  have v: "shape (Tensor [1, 2, 256] (replicate 512 (1 :: real))) = [1, 2, 256]"
          "well_formed (Tensor [1, 2, 256] (replicate 512 (1 :: real)))"
    and i: "shape (Tensor [1, 128] (replicate 128 (2 :: real))) = [1, 128]"
           "well_formed (Tensor [1, 128] (replicate 128 (2 :: real)))"
    by (simp_all add: well_formed_def)
  obtain out where out:
      "Fusion_forward (Tensor [1, 2, 256] (replicate 512 1)) (Tensor [1, 128] (replicate 128 2)) = Inr out"
      "shape out = [1, 2, 384]" "well_formed out"
      "\<forall>b<1. \<forall>t<2.
          take 256 (chunk 384 (data out) (b * 2 + t))
            = chunk 256 (data (Tensor [1, 2, 256] (replicate 512 (1 :: real)))) (b * 2 + t)
        \<and> drop 256 (chunk 384 (data out) (b * 2 + t))
            = chunk 128 (data (Tensor [1, 128] (replicate 128 (2 :: real)))) b"
    using Fusion_forward_concat [OF v i] by blast
  have "(0 :: nat) < 1" "(1 :: nat) < 2" by simp_all
  then have "take 256 (chunk 384 (data out) (0 * 2 + 1)) = chunk 256 (replicate 512 1) (0 * 2 + 1)
        \<and> drop 256 (chunk 384 (data out) (0 * 2 + 1)) = chunk 128 (replicate 128 2) 0"
    using out(4) by (metis tensor.sel(2))
  then show ?thesis using v i out(1-3) by blast
qed

section \<open>Memory layout and views\<close>

lemma concat_blocks_upt:
  "concat (map (\<lambda>i. map (\<lambda>j. i * P + j) [0..<P]) [0..<d]) = [0..<d * P]"
proof (induction d)
  case 0
  then show ?case by simp
next
  case (Suc d)
  have "map (\<lambda>j. j + d * P) [0..<P] = [d * P..<P + d * P]"
    by (rule map_add_upt)
  then have blk: "map (\<lambda>j. d * P + j) [0..<P] = [d * P..<d * P + P]"
    by (simp only: add.commute)
  have "[0..<d * P + P] = [0..<d * P] @ [d * P..<d * P + P]"
    by (rule upt_add_eq_append) simp
  then have "[0..<Suc d * P] = [0..<d * P] @ map (\<lambda>j. d * P + j) [0..<P]"
    using blk by (simp only: mult_Suc add.commute)
  then show ?case using Suc by simp
qed

lemma offsets_contiguous: "offsets s (contiguous_strides s) = [0..<prod_list s]"
  by (induction s) (simp_all add: concat_blocks_upt)

lemma length_contiguous_strides: "length (contiguous_strides s) = length s"
  by (induction s) simp_all

lemma is_contiguous_strides: "is_contiguous s (contiguous_strides s)"
  by (simp add: is_contiguous_def offsets_contiguous length_contiguous_strides)

lemma view_strides_upt: "view_strides [0..<n] sizes = contiguous_strides sizes"
  by (induction sizes) simp_all

lemma length_view_strides: "length (view_strides offs sizes) = length sizes"
  by (induction sizes) simp_all

lemma view_contiguous:
  assumes "is_contiguous (shape t) st" and "prod_list sizes = prod_list (shape t)"
  shows "view_strides (offsets (shape t) st) sizes = contiguous_strides sizes"
    and "offsets sizes (view_strides (offsets (shape t) st) sizes) = offsets (shape t) st"
  using assms by (simp_all add: is_contiguous_def view_strides_upt offsets_contiguous)

lemma length_offsets: "length st = length s \<Longrightarrow> length (offsets s st) = prod_list s"
proof (induction s st rule: list_induct2')
  case (4 d ds s ss)
  then have "length (offsets ds ss) = prod_list ds" by simp
  then have "length (concat (map (\<lambda>i. map (\<lambda>j. i * s + j) (offsets ds ss)) [0..<d])) = d * prod_list ds"
    by (intro length_concat_blocks) simp
  then show ?case by simp
qed simp_all

lemma offsets_nth:
  assumes len: "length ss = length ds" and i: "i < d" and r: "r < prod_list ds"
  shows "offsets (d # ds) (s # ss) ! (i * prod_list ds + r) = i * s + offsets ds ss ! r"
proof -
  let ?P = "prod_list ds"
  let ?g = "\<lambda>i. map (\<lambda>j. i * s + j) (offsets ds ss)"
  let ?xs = "concat (map ?g [0..<d])"
  have lg: "length (?g k) = ?P" for k
    using length_offsets [OF len] by simp
  have blk: "chunk ?P ?xs i = ?g i"
    using i by (intro chunk_concat_blocks lg)
  have lx: "length ?xs = d * ?P"
    by (intro length_concat_blocks lg)
  have "Suc i * ?P \<le> d * ?P" using i by (intro mult_le_mono1) simp
  then have "i * ?P + r < length ?xs" using r lx by simp
  then have "?xs ! (i * ?P + r) = chunk ?P ?xs i ! r"
    using r by (simp add: chunk_def)
  also have "\<dots> = i * s + offsets ds ss ! r"
    using blk r length_offsets [OF len] by simp
  finally show ?thesis by simp
qed

lemma offsets_first: "length st = length s \<Longrightarrow> 0 < prod_list s \<Longrightarrow> offsets s st ! 0 = 0"
proof (induction s st rule: list_induct2')
  case (4 d ds s ss)
  then have "0 < d" "0 < prod_list ds" "length ss = length ds" by simp_all
  then show ?case
    using offsets_nth [of ss ds 0 d 0 s] "4.IH" by simp
qed simp_all

text \<open>The transpose of the first two axes of a contiguous tensor of size
  \<open>[2, 2, 3, 84, 84]\<close>: its frames cannot be read as a batch of four without copying.\<close>

lemma transposed_not_viewable:
  "view [21168, 42336, 7056, 84, 1] (Tensor [2, 2, 3, 84, 84] xs) [4, 3, 84, 84]
   = Inl IncompatibleLayout"
proof -
  let ?offs = "offsets [2, 2, 3, 84, 84] [21168, 42336, 7056, 84, 1]"
  let ?st = "view_strides ?offs [4, 3, 84, 84]"
  have a: "?offs ! 21168 = 42336"
  proof -
    have "?offs ! (0 * prod_list [2, 3, 84, 84] + 21168)
          = 0 * 21168 + offsets [2, 3, 84, 84] [42336, 7056, 84, 1] ! 21168"
      by (rule offsets_nth) simp_all
    moreover have "offsets [2, 3, 84, 84] [42336, 7056, 84, 1] ! (1 * prod_list [3, 84, 84] + 0)
          = 1 * 42336 + offsets [3, 84, 84] [7056, 84, 1] ! 0"
      by (rule offsets_nth) simp_all
    moreover have "offsets [3, 84, 84] [7056, 84, 1] ! 0 = 0"
      by (rule offsets_first) simp_all
    ultimately show ?thesis by simp
  qed
  have b: "?offs ! 42336 = 21168"
  proof -
    have "?offs ! (1 * prod_list [2, 3, 84, 84] + 0)
          = 1 * 21168 + offsets [2, 3, 84, 84] [42336, 7056, 84, 1] ! 0"
      by (rule offsets_nth) simp_all
    moreover have "offsets [2, 3, 84, 84] [42336, 7056, 84, 1] ! 0 = 0"
      by (rule offsets_first) simp_all
    ultimately show ?thesis by simp
  qed
  have len: "length ?offs = 84672"
    using length_offsets [of "[21168, 42336, 7056, 84, 1]" "[2, 2, 3, 84, 84]"] by simp
  have st: "?st = 42336 # view_strides ?offs [3, 84, 84]"
    using a len by simp
  have "offsets [4, 3, 84, 84] ?st ! 42336 = 84672"
  proof -
    have "offsets (4 # [3, 84, 84]) (42336 # view_strides ?offs [3, 84, 84])
            ! (2 * prod_list [3, 84, 84] + 0)
          = 2 * 42336 + offsets [3, 84, 84] (view_strides ?offs [3, 84, 84]) ! 0"
      by (rule offsets_nth) (simp_all add: length_view_strides)
    moreover have "offsets [3, 84, 84] (view_strides ?offs [3, 84, 84]) ! 0 = 0"
      by (rule offsets_first) (simp_all add: length_view_strides)
    ultimately show ?thesis using st by simp
  qed
  then have "offsets [4, 3, 84, 84] ?st \<noteq> ?offs"
    using b by auto
  then show ?thesis
    by (simp add: view_def Let_def del: offsets.simps view_strides.simps)
qed

section \<open>VisualEncoder: frames and accepted inputs\<close>

lemma length_conv2d_frame:
  "length (conv2d_frame m H W x)
     = out_channels m * (conv_out H (kernel_size m) (stride m) * conv_out W (kernel_size m) (stride m))"
proof -
  have inner: "length (concat (map (\<lambda>i. map (\<lambda>j. conv2d_at m H W x co i j)
                                         [0..<conv_out W (kernel_size m) (stride m)])
                                 [0..<conv_out H (kernel_size m) (stride m)]))
               = conv_out H (kernel_size m) (stride m) * conv_out W (kernel_size m) (stride m)" for co
    by (intro length_concat_blocks) simp
  show ?thesis
    unfolding conv2d_frame_def by (intro length_concat_blocks inner)
qed

lemma Conv2d_forward_eq:
  assumes "shape x = [N, in_channels m, H, W]"
    and "0 < kernel_size m" "0 < stride m" "kernel_size m \<le> H" "kernel_size m \<le> W"
  shows "Conv2d_forward m x =
           Inr (Tensor [N, out_channels m, conv_out H (kernel_size m) (stride m),
                        conv_out W (kernel_size m) (stride m)]
                  (concat (map (\<lambda>n. conv2d_frame m H W (chunk (in_channels m * H * W) (data x) n))
                             [0..<N])))"
  using assms by (simp add: Conv2d_forward_def)

lemma batch_step:
  assumes "\<And>n. n < N \<Longrightarrow> length (g n) = k"
  shows "concat (map (\<lambda>n. f (chunk k (map h (concat (map g [0..<N]))) n)) [0..<N])
         = concat (map (\<lambda>n. f (map h (g n))) [0..<N])"
proof -
  have "chunk k (map h (concat (map g [0..<N]))) n = map h (g n)" if "n < N" for n
    using chunk_concat_blocks [of N g k n] assms that by (simp add: chunk_map)
  then show ?thesis
    by (intro arg_cong [where f = concat] map_cong refl) simp
qed

lemma view_frames:
  assumes "is_contiguous (shape t) st" and "prod_list (shape t) = N * 21168"
  shows "view st t [int N, 3, 84, 84]
         = Inr (contiguous_strides [N, 3, 84, 84], Tensor [N, 3, 84, 84] (data t))"
  using view_contiguous [OF assms(1), of "[N, 3, 84, 84]"] assms(2)
  by (simp add: view_def Let_def)

lemma view_frames_fail:
  "prod_list (shape t) \<noteq> N * 21168 \<Longrightarrow> view st t [int N, 3, 84, 84] = Inl ShapeMismatch"
  by (simp add: view_def)

lemma view_flat:
  assumes "shape t = [N, 64, 7, 7]" and "0 < N"
  shows "view (contiguous_strides (shape t)) t [int N, - 1]
         = Inr (contiguous_strides [N, 3136], Tensor [N, 3136] (data t))"
  using view_contiguous [OF is_contiguous_strides, of "[N, 3136]" t] assms
  by (simp add: view_def Let_def)

lemma view_batch_time:
  assumes "shape t = [B * T, 256]" and "0 < B * T"
  shows "view (contiguous_strides (shape t)) t [int B, int T, - 1]
         = Inr (contiguous_strides [B, T, 256], Tensor [B, T, 256] (data t))"
  using view_contiguous [OF is_contiguous_strides, of "[B, T, 256]" t] assms
  by (simp add: view_def Let_def)

lemma VisualEncoder_forward_numel:
  assumes len: "2 \<le> length (shape img)"
    and N: "N = shape img ! 0 * shape img ! 1" and pos: "0 < N"
    and numel: "prod_list (shape img) = N * 21168"
    and contiguous: "is_contiguous (shape img) st"
  shows "VisualEncoder_forward (VisualEncoder_init w1 b1 w2 b2 w3 b3 wl bl) st img =
           Some (Inr (Tensor [shape img ! 0, shape img ! 1, 256]
                  (concat (map (\<lambda>n. frame_encoding (VisualEncoder_init w1 b1 w2 b2 w3 b3 wl bl)
                                        (chunk 21168 (data img) n))
                             [0..<N]))))"
proof -
  let ?ve = "VisualEncoder_init w1 b1 w2 b2 w3 b3 wl bl"
  let ?g1 = "\<lambda>n. conv2d_frame (conv1 ?ve) 84 84 (chunk 21168 (data img) n)"
  let ?g2 = "\<lambda>n. conv2d_frame (conv2 ?ve) 20 20 (map (max 0) (?g1 n))"
  let ?g3 = "\<lambda>n. conv2d_frame (conv3 ?ve) 9 9 (map (max 0) (?g2 n))"
  let ?g4 = "\<lambda>n. linear_row (visual_linear ?ve) (map (max 0) (?g3 n))"
  have c1: "in_channels (conv1 ?ve) = 3" "out_channels (conv1 ?ve) = 32"
           "kernel_size (conv1 ?ve) = 8" "stride (conv1 ?ve) = 4"
    and c2: "in_channels (conv2 ?ve) = 32" "out_channels (conv2 ?ve) = 64"
            "kernel_size (conv2 ?ve) = 4" "stride (conv2 ?ve) = 2"
    and c3: "in_channels (conv3 ?ve) = 64" "out_channels (conv3 ?ve) = 64"
            "kernel_size (conv3 ?ve) = 3" "stride (conv3 ?ve) = 1"
    and l: "in_features (visual_linear ?ve) = 3136" "out_features (visual_linear ?ve) = 256"
    by (simp_all add: VisualEncoder_init_def Conv2d_init_def Linear_init_def)
  have l1: "length (?g1 n) = 12800" and l2: "length (?g2 n) = 5184"
    and l3: "length (?g3 n) = 3136" for n
    by (simp_all add: length_conv2d_frame c1 c2 c3 conv_out_def)
  have s0: "size_at img 0 = Inr (shape img ! 0)" "size_at img 1 = Inr (shape img ! 1)"
    using len by (auto simp: size_at_def)
  have s1: "view st img [int N, 3, 84, 84]
            = Inr (contiguous_strides [N, 3, 84, 84], Tensor [N, 3, 84, 84] (data img))"
    using contiguous numel by (rule view_frames)
  have s1c: "is_contiguous (shape (Tensor [N, 3, 84, 84] (data img))) (contiguous_strides [N, 3, 84, 84])"
    using is_contiguous_strides [of "[N, 3, 84, 84]"] by simp
  have s2: "Conv2d_forward (conv1 ?ve) (Tensor [N, 3, 84, 84] (data img))
            = Inr (Tensor [N, 32, 20, 20] (concat (map ?g1 [0..<N])))"
    using Conv2d_forward_eq [of "Tensor [N, 3, 84, 84] (data img)" N "conv1 ?ve" 84 84]
    by (simp add: c1 conv_out_def)
  have s3: "Conv2d_forward (conv2 ?ve) (relu (Tensor [N, 32, 20, 20] (concat (map ?g1 [0..<N]))))
            = Inr (Tensor [N, 64, 9, 9] (concat (map ?g2 [0..<N])))"
    using Conv2d_forward_eq [of "relu (Tensor [N, 32, 20, 20] (concat (map ?g1 [0..<N])))" N
                                "conv2 ?ve" 20 20]
          batch_step [of N ?g1 12800 "conv2d_frame (conv2 ?ve) 20 20" "max 0"] l1
    by (simp add: c2 conv_out_def relu_def del: map_concat)
  have s4: "Conv2d_forward (conv3 ?ve) (relu (Tensor [N, 64, 9, 9] (concat (map ?g2 [0..<N]))))
            = Inr (Tensor [N, 64, 7, 7] (concat (map ?g3 [0..<N])))"
    using Conv2d_forward_eq [of "relu (Tensor [N, 64, 9, 9] (concat (map ?g2 [0..<N])))" N
                                "conv3 ?ve" 9 9]
          batch_step [of N ?g2 5184 "conv2d_frame (conv3 ?ve) 9 9" "max 0"] l2
    by (simp add: c3 conv_out_def relu_def del: map_concat)
  have s5: "view (contiguous_strides (shape (Tensor [N, 64, 7, 7] (concat (map ?g3 [0..<N])))))
              (relu (Tensor [N, 64, 7, 7] (concat (map ?g3 [0..<N])))) [int N, - 1]
            = Inr (contiguous_strides [N, 3136],
                   Tensor [N, 3136] (map (max 0) (concat (map ?g3 [0..<N]))))"
    using view_flat [of "relu (Tensor [N, 64, 7, 7] (concat (map ?g3 [0..<N])))" N] pos
    by (simp add: relu_def del: map_concat)
  have s6: "Linear_forward (visual_linear ?ve)
              (Tensor [N, 3136] (map (max 0) (concat (map ?g3 [0..<N]))))
            = Inr (Tensor [N, 256] (concat (map ?g4 [0..<N])))"
    using batch_step [of N ?g3 3136 "linear_row (visual_linear ?ve)" "max 0"] l3
    by (simp add: Linear_forward_def l del: map_concat)
  have s7: "view (contiguous_strides (shape (Tensor [N, 256] (concat (map ?g4 [0..<N])))))
              (relu (Tensor [N, 256] (concat (map ?g4 [0..<N]))))
              [int (shape img ! 0), int (shape img ! 1), - 1]
            = Inr (contiguous_strides [shape img ! 0, shape img ! 1, 256],
                   Tensor [shape img ! 0, shape img ! 1, 256]
                     (map (max 0) (concat (map ?g4 [0..<N]))))"
    using view_batch_time [of "relu (Tensor [N, 256] (concat (map ?g4 [0..<N])))"
                              "shape img ! 0" "shape img ! 1"] pos N
    by (simp add: relu_def del: map_concat)
  have fin: "map (max 0) (concat (map ?g4 [0..<N]))
             = concat (map (\<lambda>n. frame_encoding ?ve (chunk 21168 (data img) n)) [0..<N])"
    by (simp add: map_concat comp_def frame_encoding_def)
  show ?thesis
    unfolding VisualEncoder_forward_def
    using s0 s1 s1c s2 s3 s4 s5 s6 s7 fin N
    by (simp add: bind_def del: map_concat contiguous_strides.simps)
qed

lemma VisualEncoder_forward_count:
  assumes "2 \<le> length (shape img)"
    and "prod_list (shape img) \<noteq> shape img ! 0 * shape img ! 1 * 21168"
  shows "VisualEncoder_forward self st img = Some (Inl ShapeMismatch)"
proof -
  have "size_at img 0 = Inr (shape img ! 0)" "size_at img 1 = Inr (shape img ! 1)"
    using assms(1) by (auto simp: size_at_def)
  then show ?thesis
    using view_frames_fail [OF assms(2), of st]
    by (simp add: VisualEncoder_forward_def)
qed

lemma length_frame_encoding:
  "length (frame_encoding (VisualEncoder_init w1 b1 w2 b2 w3 b3 wl bl) x) = 256"
  by (simp add: frame_encoding_def linear_row_def VisualEncoder_init_def Linear_init_def)

lemma flat_index: "b < B \<Longrightarrow> t < T \<Longrightarrow> b * T + t < B * (T :: nat)"
proof -
  assume b: "b < B" and t: "t < T"
  have "b * T + t < b * T + T" using t by simp
  also have "\<dots> = Suc b * T" by simp
  also have "\<dots> \<le> B * T" using b by (intro mult_le_mono1) simp
  finally show ?thesis .
qed

text \<open>C5 as stated fails: an image tensor of size \<open>[2, 2, 3, 84, 84]\<close> that is the
  transpose of the first two axes of a contiguous tensor has the claimed size, and the
  call fails at its first view.\<close>

theorem VisualEncoder_transposed_counterexample:
  "VisualEncoder_forward
     (VisualEncoder_init (Tensor [32, 3, 8, 8] (replicate 6144 0)) (Tensor [32] (replicate 32 0))
           (Tensor [64, 32, 4, 4] (replicate 32768 0)) (Tensor [64] (replicate 64 0))
           (Tensor [64, 64, 3, 3] (replicate 36864 0)) (Tensor [64] (replicate 64 0))
           (Tensor [256, 3136] (replicate 802816 0)) (Tensor [256] (replicate 256 0)))
     [21168, 42336, 7056, 84, 1] (Tensor [2, 2, 3, 84, 84] (replicate 84672 0))
   = Some (Inl IncompatibleLayout)"
  using transposed_not_viewable [of "replicate 84672 (0 :: real)"]
  by (simp add: VisualEncoder_forward_def size_at_def)

text \<open>C5, amended: for every batch size \<open>B \<ge> 1\<close> and timestep count \<open>T \<ge> 1\<close>,
  \<open>VisualEncoder.forward\<close> on a well-formed, contiguous image tensor of size
  \<open>[B, T, 3, 84, 84]\<close> returns a well-formed tensor of size \<open>[B, T, 256]\<close>, and the output
  at batch element \<open>b\<close> and timestep \<open>t\<close> is the encoding of the frame at \<open>(b, t)\<close> alone:
  no other frame and no state enters it.\<close>

theorem VisualEncoder_forward_contiguous:
  assumes img: "shape img = [B, T, 3, 84, 84]" "well_formed img"
    and contiguous: "is_contiguous (shape img) img_stride"
    and B: "1 \<le> B" and T: "1 \<le> T"
    and wf: "VisualEncoder_wf (VisualEncoder_init w1 b1 w2 b2 w3 b3 wl bl)"
  shows "\<exists>out. VisualEncoder_forward (VisualEncoder_init w1 b1 w2 b2 w3 b3 wl bl) img_stride img
                 = Some (Inr out)
           \<and> shape out = [B, T, 256] \<and> well_formed out
           \<and> (\<forall>b<B. \<forall>t<T. chunk 256 (data out) (b * T + t)
                  = frame_encoding (VisualEncoder_init w1 b1 w2 b2 w3 b3 wl bl)
                      (chunk (3 * 84 * 84) (data img) (b * T + t)))"
proof -
  let ?ve = "VisualEncoder_init w1 b1 w2 b2 w3 b3 wl bl"
  let ?f = "\<lambda>n. frame_encoding ?ve (chunk 21168 (data img) n)"
  let ?out = "Tensor [B, T, 256] (concat (map ?f [0..<B * T]))"
  have "VisualEncoder_forward ?ve img_stride img = Some (Inr ?out)"
    using VisualEncoder_forward_numel [of img "B * T" img_stride w1 b1 w2 b2 w3 b3 wl bl]
          img(1) B T contiguous
    by simp
  moreover have "length (concat (map ?f [0..<B * T])) = B * T * 256"
    by (intro length_concat_blocks length_frame_encoding)
  moreover have "chunk 256 (concat (map ?f [0..<B * T])) (b * T + t) = ?f (b * T + t)"
    if "b < B" "t < T" for b t
    using flat_index [OF that] by (intro chunk_concat_blocks length_frame_encoding)
  ultimately show ?thesis
    by (intro exI [of _ ?out]) (simp add: well_formed_def)
qed

theorem VisualEncoder_forward_contiguous_witness:
  "shape (Tensor [1, 1, 3, 84, 84] (replicate 21168 (0 :: real))) = [1, 1, 3, 84, 84]
   \<and> well_formed (Tensor [1, 1, 3, 84, 84] (replicate 21168 (0 :: real)))
   \<and> is_contiguous (shape (Tensor [1, 1, 3, 84, 84] (replicate 21168 (0 :: real))))
        [21168, 21168, 7056, 84, 1]
   \<and> (1 :: nat) \<le> 1
   \<and> VisualEncoder_wf
        (VisualEncoder_init (Tensor [32, 3, 8, 8] (replicate 6144 0)) (Tensor [32] (replicate 32 0))
           (Tensor [64, 32, 4, 4] (replicate 32768 0)) (Tensor [64] (replicate 64 0))
           (Tensor [64, 64, 3, 3] (replicate 36864 0)) (Tensor [64] (replicate 64 0))
           (Tensor [256, 3136] (replicate 802816 0)) (Tensor [256] (replicate 256 0)))
   \<and> (\<exists>out. VisualEncoder_forward
                (VisualEncoder_init (Tensor [32, 3, 8, 8] (replicate 6144 0)) (Tensor [32] (replicate 32 0))
           (Tensor [64, 32, 4, 4] (replicate 32768 0)) (Tensor [64] (replicate 64 0))
           (Tensor [64, 64, 3, 3] (replicate 36864 0)) (Tensor [64] (replicate 64 0))
           (Tensor [256, 3136] (replicate 802816 0)) (Tensor [256] (replicate 256 0)))
                [21168, 21168, 7056, 84, 1]
                (Tensor [1, 1, 3, 84, 84] (replicate 21168 0)) = Some (Inr out)
          \<and> shape out = [1, 1, 256] \<and> well_formed out)"
proof -
  let ?img = "Tensor [1, 1, 3, 84, 84] (replicate 21168 (0 :: real))"
  let ?ve = "(VisualEncoder_init (Tensor [32, 3, 8, 8] (replicate 6144 0)) (Tensor [32] (replicate 32 0))
           (Tensor [64, 32, 4, 4] (replicate 32768 0)) (Tensor [64] (replicate 64 0))
           (Tensor [64, 64, 3, 3] (replicate 36864 0)) (Tensor [64] (replicate 64 0))
           (Tensor [256, 3136] (replicate 802816 0)) (Tensor [256] (replicate 256 0)))"
  have img: "shape ?img = [1, 1, 3, 84, 84]" "well_formed ?img"
    by (simp_all add: well_formed_def)
  have c: "is_contiguous (shape ?img) [21168, 21168, 7056, 84, 1]"
    using is_contiguous_strides [of "[1, 1, 3, 84, 84]"] by simp
  have one: "(1 :: nat) \<le> 1" by simp
  have wf: "VisualEncoder_wf ?ve"
    by (simp add: VisualEncoder_wf_def VisualEncoder_init_def Conv2d_wf_def Conv2d_init_def
          Linear_wf_def Linear_init_def well_formed_def)
  show ?thesis
    using VisualEncoder_forward_contiguous [OF img c one one wf] img c one wf by blast
qed

text \<open>C2 as stated fails: a contiguous input with per-frame sizes \<open>[84, 84, 3]\<close> (channels
  last, so a wrong channel count and a wrong resolution) has the expected element count;
  the call does not fail and returns a tensor of size \<open>[1, 1, 256]\<close>.\<close>

theorem VisualEncoder_channels_last_counterexample:
  "map_option (map_sum id shape)
     (VisualEncoder_forward
        (VisualEncoder_init (Tensor [32, 3, 8, 8] (replicate 6144 0)) (Tensor [32] (replicate 32 0))
           (Tensor [64, 32, 4, 4] (replicate 32768 0)) (Tensor [64] (replicate 64 0))
           (Tensor [64, 64, 3, 3] (replicate 36864 0)) (Tensor [64] (replicate 64 0))
           (Tensor [256, 3136] (replicate 802816 0)) (Tensor [256] (replicate 256 0)))
        [21168, 21168, 252, 3, 1] (Tensor [1, 1, 84, 84, 3] (replicate 21168 0)))
   = Some (Inr [1, 1, 256])"
  using VisualEncoder_forward_numel
          [of "Tensor [1, 1, 84, 84, 3] (replicate 21168 0)" 1 "[21168, 21168, 252, 3, 1]"]
        is_contiguous_strides [of "[1, 1, 84, 84, 3]"]
  by simp

text \<open>C2, amended: for every input with at least two axes whose element count differs
  from \<open>B * T * 3 * 84 * 84\<close>, where \<open>B\<close> and \<open>T\<close> are its first two sizes,
  \<open>VisualEncoder.forward\<close> fails with a shape-mismatch error, whatever the memory layout
  of the input. An input with that element count is not rejected for its per-frame
  sizes.\<close>

theorem VisualEncoder_forward_count_mismatch:
  assumes "2 \<le> length (shape img)"
    and "prod_list (shape img) \<noteq> shape img ! 0 * shape img ! 1 * (3 * 84 * 84)"
  shows "VisualEncoder_forward self img_stride img = Some (Inl ShapeMismatch)"
  using assms VisualEncoder_forward_count [of img self img_stride] by simp

theorem VisualEncoder_forward_count_mismatch_witness:
  "2 \<le> length (shape (Tensor [1, 1, 3, 84, 42] (replicate 10584 (0 :: real))))
   \<and> prod_list (shape (Tensor [1, 1, 3, 84, 42] (replicate 10584 (0 :: real))))
       \<noteq> shape (Tensor [1, 1, 3, 84, 42] (replicate 10584 (0 :: real))) ! 0
         * shape (Tensor [1, 1, 3, 84, 42] (replicate 10584 (0 :: real))) ! 1 * (3 * 84 * 84)
   \<and> VisualEncoder_forward
        (VisualEncoder_init (Tensor [32, 3, 8, 8] (replicate 6144 0)) (Tensor [32] (replicate 32 0))
           (Tensor [64, 32, 4, 4] (replicate 32768 0)) (Tensor [64] (replicate 64 0))
           (Tensor [64, 64, 3, 3] (replicate 36864 0)) (Tensor [64] (replicate 64 0))
           (Tensor [256, 3136] (replicate 802816 0)) (Tensor [256] (replicate 256 0)))
        [10584, 10584, 3528, 42, 1] (Tensor [1, 1, 3, 84, 42] (replicate 10584 0))
     = Some (Inl ShapeMismatch)"
proof -
  let ?img = "Tensor [1, 1, 3, 84, 42] (replicate 10584 (0 :: real))"
  have a: "2 \<le> length (shape ?img)" by simp
  have b: "prod_list (shape ?img) \<noteq> shape ?img ! 0 * shape ?img ! 1 * (3 * 84 * 84)" by simp
  show ?thesis
    using VisualEncoder_forward_count_mismatch [OF a b] a b by blast
qed

section \<open>TimeEncoder: the initial state\<close>

lemma TimeEncoder_forward_batched:
  "TimeEncoder_forward self (Tensor [B, T, I] xs) = Inl ShapeMismatch"
  by (simp add: TimeEncoder_forward_def LSTM_forward_def bind_def size_at_def zeros_def Let_def)

text \<open>With an initial state of the documented size \<open>[1, B, H]\<close> the layer accepts a
  batch, and dropping the leading axis of its final hidden state gives size \<open>[B, H]\<close>.\<close>

lemma LSTM_forward_layer_state:
  assumes "0 < T"
  shows "\<exists>output h c.
           LSTM_forward m (Tensor [B, T, input_size m] xs)
             (zeros [1, B, lstm_hidden_size m], zeros [1, B, lstm_hidden_size m])
             = Inr (output, (h, c))
           \<and> shape h = [1, B, lstm_hidden_size m]
           \<and> shape (squeeze0 h) = [B, lstm_hidden_size m]"
  using assms by (simp add: LSTM_forward_def zeros_def squeeze0_def Let_def)

text \<open>C1: the documentation of \<open>forward\<close>, its self-test and the claim say that a fused
  sequence of size \<open>[B, T, 384]\<close> yields the final hidden state, of size \<open>[B, 256]\<close>. The
  code does not: for every batched input, whatever its sizes and whatever the parameters,
  the call fails, because \<open>forward\<close> passes an initial state of size \<open>[B, 256]\<close> where the
  layer requires size \<open>[1, B, 256]\<close>.\<close>

theorem TimeEncoder_forward_rejects_batched:
  "TimeEncoder_forward self (Tensor [B, T, 384] xs) = Inl ShapeMismatch
   \<and> (\<forall>out. TimeEncoder_forward self (Tensor [B, T, 384] xs) \<noteq> Inr out)"
  by (simp add: TimeEncoder_forward_batched)


end
